theory Spec2Isabelle
  imports Complex_Main "HOL-Library.Multiset" "HOL-Library.Product_Lexorder" "HOL-Library.Sublist"
begin

section \<open>Data model\<close>

text \<open>
  The two evaluation scripts \<^verbatim>\<open>baseline_portfolio.py\<close> and \<^verbatim>\<open>buyhold_portfolio.py\<close>
  are embedded. Python floats are read as exact real numbers: rounding is outside the
  model. An asset is its column label (\<^verbatim>\<open>read_csv\<close> renames a repeated label, so the
  labels of a loaded frame are distinct). A timestamp is the triple (year, month, day),
  ordered lexicographically, which is the order of the calendar.

  Division is the division of the reals, which is the program's whenever the divisor is
  not zero. The buy-and-hold script divides Python floats, and its two
  \<^verbatim>\<open>ZeroDivisionError\<close>s are branches of the model. The periodic script mixes Python
  and numpy floats: a zero \<^verbatim>\<open>exec_price\<close> gives \<^verbatim>\<open>inf\<close> (written out in the SELL
  branch, where it decides the clamped quantity), and a zero \<^verbatim>\<open>1.0 + fee_rate\<close> raises
  or gives \<^verbatim>\<open>inf\<close> according to the run-time type of \<^verbatim>\<open>cash\<close>. The statements about
  the values that the BUY branch of the periodic script computes are therefore made for
  \<open>1 + fee_rate \<noteq> 0\<close>, and those about bought quantities for a BUY execution price
  other than zero.
\<close>

type_synonym asset = string
type_synonym date = "nat \<times> nat \<times> nat"

datatype error = ValueError | ZeroDivisionError | IndexError | TypeError

datatype side = SELL | BUY

record Costs =
  fee_bps :: real
  slippage_bps :: real
  fixed_per_trade :: real

text \<open>One row of \<^verbatim>\<open>trade_rows\<close> (the dict appended after each executed order).\<close>

record trade =
  t_date :: date
  t_asset :: asset
  t_side :: side
  t_qty :: real
  t_price :: real
  t_notional :: real
  t_fee_var :: real
  t_fee_fixed :: real
  t_fee_total :: real

text \<open>
  One row of \<^verbatim>\<open>equity_rows\<close>; the keys \<^verbatim>\<open>qty_<a>\<close> and \<^verbatim>\<open>val_<a>\<close> are kept as two
  association lists in column order.
\<close>

record equity_row =
  e_date :: date
  e_equity :: real
  e_cash :: real
  e_qty :: "(asset \<times> real) list"
  e_val :: "(asset \<times> real) list"

text \<open>
  The table as \<^verbatim>\<open>read_csv\<close> and \<^verbatim>\<open>to_numeric(errors="coerce")\<close> leave it: a row is its
  date and a cell for each column label, \<open>None\<close> standing for NaN (a missing or
  non-numeric cell).
\<close>

record raw_table =
  raw_columns :: "asset list"
  raw_rows :: "(date \<times> (asset \<Rightarrow> real option)) list"

text \<open>The validated frame \<^verbatim>\<open>close\<close>: a price row is read only at the labels of its columns.\<close>

record panel =
  columns :: "asset list"
  rows :: "(date \<times> (asset \<Rightarrow> real)) list"

text \<open>
  The local variables of a simulation that the loops mutate: \<^verbatim>\<open>cash\<close>, the dict
  \<^verbatim>\<open>qty\<close> (initialised to 0.0 at every asset and only ever read at an asset), and the
  two output lists.
\<close>

record sim_state =
  cash :: real
  qty :: "asset \<Rightarrow> real"
  equity_rows :: "equity_row list"
  trade_rows :: "trade list"

section \<open>Loader\<close>

definition bps_to_rate :: "real \<Rightarrow> real" where
  "bps_to_rate bps = bps / 10000"

definition cell_value :: "real option \<Rightarrow> real" where
  "cell_value c = (case c of Some v \<Rightarrow> v | None \<Rightarrow> 0)"

text \<open>
  \<^verbatim>\<open>load_panel_close\<close>: sort by the date column, make it the index, raise
  \<^verbatim>\<open>ValueError\<close> when any cell is NaN. Nothing else is done to the rows. (The order
  pandas gives to rows of equal date is not fixed by \<^verbatim>\<open>sort_values\<close>; the model keeps
  their input order, and no theorem below depends on it.) After the NaN check every cell
  of a column holds a number, so \<open>cell_value\<close> never takes its default at a column.
\<close>

definition load_panel_close :: "raw_table \<Rightarrow> error + panel" where
  "load_panel_close t =
     (let df = sort_key fst (raw_rows t) in
      if list_ex (\<lambda>r. list_ex (\<lambda>c. snd r c = None) (raw_columns t)) df
      then Inl ValueError
      else Inr \<lparr>columns = raw_columns t,
                rows = map (\<lambda>r. (fst r, \<lambda>c. cell_value (snd r c))) df\<rparr>)"

section \<open>Periodic equal-weight simulation\<close>

definition year_month :: "date \<Rightarrow> nat \<times> nat" where
  "year_month d = (fst d, fst (snd d))"

text \<open>\<^verbatim>\<open>groupby([index.year, index.month]).head(1)\<close>: the first row of every group.\<close>

fun first_of_groups :: "(nat \<times> nat) list \<Rightarrow> date list \<Rightarrow> date list" where
  "first_of_groups seen [] = []"
| "first_of_groups seen (d # ds) =
     (if year_month d \<in> set seen then first_of_groups seen ds
      else d # first_of_groups (year_month d # seen) ds)"

definition first_trading_day_each_month :: "date list \<Rightarrow> date list" where
  "first_trading_day_each_month index = first_of_groups [] index"

definition portfolio_value :: "asset list \<Rightarrow> (asset \<Rightarrow> real) \<Rightarrow> sim_state \<Rightarrow> real" where
  "portfolio_value assets prices_row st =
     cash st + sum_list (map (\<lambda>a. qty st a * prices_row a) assets)"

text \<open>
  The body of \<^verbatim>\<open>if side == "SELL" and dv < 0\<close>. The operands of
  \<^verbatim>\<open>notional / exec_price\<close> are numpy floats, so a zero \<^verbatim>\<open>exec_price\<close> (slippage of
  exactly 10000 bps) gives \<^verbatim>\<open>inf\<close> and no exception, and \<^verbatim>\<open>min(inf, qty[a])\<close> is
  \<^verbatim>\<open>qty[a]\<close>: that case is written out.
\<close>

definition sell_branch ::
  "Costs \<Rightarrow> date \<Rightarrow> (asset \<Rightarrow> real) \<Rightarrow> asset \<Rightarrow> real \<Rightarrow> sim_state \<Rightarrow> sim_state" where
  "sell_branch costs dt prices a dv st =
     (let fee_rate = bps_to_rate (fee_bps costs);
          slip_rate = bps_to_rate (slippage_bps costs);
          notional = \<bar>dv\<bar>
      in if notional \<le> 0 then st
         else
           let exec_price = prices a * (1 - slip_rate);
               dq = (if exec_price = 0 then qty st a
                     else min (notional / exec_price) (qty st a));
               notional_exec = dq * exec_price;
               var_cost = notional_exec * fee_rate;
               fix_cost = fixed_per_trade costs;
               total_cost = var_cost + fix_cost
           in st\<lparr>cash := cash st + (notional_exec - total_cost),
                 qty := (qty st)(a := qty st a - dq),
                 trade_rows := trade_rows st @
                   [\<lparr>t_date = dt, t_asset = a, t_side = SELL, t_qty = dq,
                     t_price = exec_price, t_notional = notional_exec,
                     t_fee_var = var_cost, t_fee_fixed = fix_cost,
                     t_fee_total = total_cost\<rparr>]\<rparr>)"

text \<open>The body of \<^verbatim>\<open>if side == "BUY" and dv > 0\<close>.\<close>

definition buy_branch ::
  "Costs \<Rightarrow> date \<Rightarrow> (asset \<Rightarrow> real) \<Rightarrow> asset \<Rightarrow> real \<Rightarrow> sim_state \<Rightarrow> sim_state" where
  "buy_branch costs dt prices a dv st =
     (let fee_rate = bps_to_rate (fee_bps costs);
          slip_rate = bps_to_rate (slippage_bps costs);
          notional = dv
      in if notional \<le> 0 then st
         else
           let exec_price = prices a * (1 + slip_rate);
               max_notional_exec = max 0 ((cash st - fixed_per_trade costs) / (1 + fee_rate));
               notional_exec = min notional max_notional_exec
           in if notional_exec \<le> 0 then st
              else
                let dq = notional_exec / exec_price;
                    var_cost = notional_exec * fee_rate;
                    fix_cost = fixed_per_trade costs;
                    total_cost = var_cost + fix_cost
                in st\<lparr>cash := cash st - (notional_exec + total_cost),
                      qty := (qty st)(a := qty st a + dq),
                      trade_rows := trade_rows st @
                        [\<lparr>t_date = dt, t_asset = a, t_side = BUY, t_qty = dq,
                          t_price = exec_price, t_notional = notional_exec,
                          t_fee_var = var_cost, t_fee_fixed = fix_cost,
                          t_fee_total = total_cost\<rparr>]\<rparr>)"

text \<open>One iteration of the nested loop \<^verbatim>\<open>for side in ("SELL", "BUY"): for a in assets\<close>.\<close>

definition trade_body ::
  "Costs \<Rightarrow> date \<Rightarrow> (asset \<Rightarrow> real) \<Rightarrow> (asset \<Rightarrow> real) \<Rightarrow> sim_state \<Rightarrow> side \<times> asset \<Rightarrow> sim_state" where
  "trade_body costs dt prices delta_val st sa =
     (let sd = fst sa; a = snd sa; dv = delta_val a
      in if sd = SELL \<and> dv < 0 then sell_branch costs dt prices a dv st
         else if sd = BUY \<and> dv > 0 then buy_branch costs dt prices a dv st
         else st)"

text \<open>
  The dict \<^verbatim>\<open>delta_val\<close>, computed once from the state at the start of the rebalance:
  target value \<^verbatim>\<open>pv * (1.0 / n)\<close> minus current value.
\<close>

definition delta_val :: "asset list \<Rightarrow> (asset \<Rightarrow> real) \<Rightarrow> sim_state \<Rightarrow> asset \<Rightarrow> real" where
  "delta_val assets prices st a =
     (let pv = portfolio_value assets prices st;
          target_w = 1 / real (length assets);
          target_val = pv * target_w;
          current_val = qty st a * prices a
      in target_val - current_val)"

text \<open>The iterations of the nested loop, in order: every asset on SELL, then every asset on BUY.\<close>

definition work :: "asset list \<Rightarrow> (side \<times> asset) list" where
  "work assets = List.product [SELL, BUY] assets"

definition rebalance ::
  "Costs \<Rightarrow> asset list \<Rightarrow> date \<Rightarrow> (asset \<Rightarrow> real) \<Rightarrow> sim_state \<Rightarrow> sim_state" where
  "rebalance costs assets dt prices st =
     foldl (trade_body costs dt prices (delta_val assets prices st)) st (work assets)"

text \<open>One iteration of \<^verbatim>\<open>for dt, prices in close.iterrows()\<close>.\<close>

definition day_step ::
  "Costs \<Rightarrow> asset list \<Rightarrow> date list \<Rightarrow> sim_state \<Rightarrow> date \<times> (asset \<Rightarrow> real) \<Rightarrow> sim_state" where
  "day_step costs assets rebalance_days st row =
     (let dt = fst row; prices = snd row;
          st1 = (if dt \<in> set rebalance_days then rebalance costs assets dt prices st else st);
          pv_after = portfolio_value assets prices st1
      in st1\<lparr>equity_rows := equity_rows st1 @
              [\<lparr>e_date = dt, e_equity = pv_after, e_cash = cash st1,
                e_qty = map (\<lambda>a. (a, qty st1 a)) assets,
                e_val = map (\<lambda>a. (a, qty st1 a * prices a)) assets\<rparr>]\<rparr>)"

definition init_state :: "real \<Rightarrow> sim_state" where
  "init_state initial_cash =
     \<lparr>cash = initial_cash, qty = (\<lambda>a. 0), equity_rows = [], trade_rows = []\<rparr>"

text \<open>The state of the simulation after the rows \<open>rs\<close> of the panel have been processed.\<close>

definition run_rows :: "panel \<Rightarrow> real \<Rightarrow> Costs \<Rightarrow> (date \<times> (asset \<Rightarrow> real)) list \<Rightarrow> sim_state" where
  "run_rows close initial_cash costs rs =
     foldl (day_step costs (columns close)
              (first_trading_day_each_month (map fst (rows close))))
       (init_state initial_cash) rs"

definition simulate_equal_weight_monthly_rebalance ::
  "panel \<Rightarrow> real \<Rightarrow> Costs \<Rightarrow> equity_row list \<times> trade list" where
  "simulate_equal_weight_monthly_rebalance close initial_cash costs =
     (let st = run_rows close initial_cash costs (rows close)
      in (equity_rows st, trade_rows st))"

text \<open>
  The state inside the run: after the first \<open>j\<close> rows of the panel and the first \<open>k\<close>
  iterations of the nested loop on row \<open>j\<close>. Every value that \<^verbatim>\<open>cash\<close> and \<^verbatim>\<open>qty\<close> take
  during a run is the value in one of these states (on a row that is not a rebalance day
  the run only passes through \<open>k = 0\<close>).
\<close>

definition mid_state :: "panel \<Rightarrow> real \<Rightarrow> Costs \<Rightarrow> nat \<Rightarrow> nat \<Rightarrow> sim_state" where
  "mid_state close initial_cash costs j k =
     (let st = run_rows close initial_cash costs (take j (rows close));
          dt = fst (rows close ! j); prices = snd (rows close ! j)
      in foldl (trade_body costs dt prices (delta_val (columns close) prices st)) st
           (take k (work (columns close))))"

text \<open>
  \<^verbatim>\<open>main\<close> of \<^verbatim>\<open>baseline_portfolio.py\<close> up to the two tables it writes to its output
  files: the parsed options go to the loader and the simulator unchanged. The summary
  printed afterwards is not part of the model.
\<close>

definition main_baseline ::
  "raw_table \<Rightarrow> real \<Rightarrow> real \<Rightarrow> real \<Rightarrow> real \<Rightarrow> error + (equity_row list \<times> trade list)" where
  "main_baseline table initial fee slippage fixed =
     (case load_panel_close table of
        Inl e \<Rightarrow> Inl e
      | Inr close \<Rightarrow>
          Inr (simulate_equal_weight_monthly_rebalance close initial
                 \<lparr>fee_bps = fee, slippage_bps = slippage, fixed_per_trade = fixed\<rparr>))"

section \<open>Single-entry buy and hold\<close>





section \<open>Concrete inputs\<close>

text \<open>A price row of a panel with the two columns A and B.\<close>

definition px :: "real \<Rightarrow> real \<Rightarrow> asset \<Rightarrow> real" where
  "px pa pb a = (if a = ''A'' then pa else pb)"


definition costs_fixed10 :: Costs where
  "costs_fixed10 = \<lparr>fee_bps = 0, slippage_bps = 0, fixed_per_trade = 10\<rparr>"

text \<open>Every price that the simulation reads from the panel is strictly positive.\<close>

definition positive_panel :: "panel \<Rightarrow> bool" where
  "positive_panel close =
     list_all (\<lambda>row. list_all (\<lambda>a. 0 < snd row a) (columns close)) (rows close)"

text \<open>Three first trading days of three months; asset A halves after the first month.\<close>

definition panel3 :: panel where
  "panel3 = \<lparr>columns = [''A'', ''B''],
     rows = [((2020, 1, 2), px 1 1), ((2020, 2, 3), px (1 / 2) 1), ((2020, 3, 2), px (1 / 2) 1)]\<rparr>"

text \<open>
  The order of the ledger: dates ascend, and between two rows of the same date a BUY
  never comes before a SELL.
\<close>

definition ledger_ordered :: "trade list \<Rightarrow> bool" where
  "ledger_ordered ledger =
     sorted_wrt (\<lambda>t u. t_date t \<le> t_date u \<and>
                        (t_date t = t_date u \<longrightarrow> \<not> (t_side t = BUY \<and> t_side u = SELL))) ledger"

text \<open>A configuration without any cost.\<close>

definition costs_free :: Costs where
  "costs_free = \<lparr>fee_bps = 0, slippage_bps = 0, fixed_per_trade = 0\<rparr>"

text \<open>A table in which the same date occurs on two rows, with different prices.\<close>

definition table_dup :: raw_table where
  "table_dup = \<lparr>raw_columns = [''A'', ''B''],
     raw_rows = [((2020, 1, 2), \<lambda>c. Some 1), ((2020, 1, 2), \<lambda>c. Some 2)]\<rparr>"

text \<open>A table whose two rows are not in date order.\<close>

definition table_unsorted :: raw_table where
  "table_unsorted = \<lparr>raw_columns = [''A'', ''B''],
     raw_rows = [((2020, 2, 3), \<lambda>c. Some 2), ((2020, 1, 2), \<lambda>c. Some 1)]\<rparr>"

text \<open>A table of one row, both assets at price 1.\<close>

definition table_one :: raw_table where
  "table_one = \<lparr>raw_columns = [''A'', ''B''], raw_rows = [((2020, 1, 2), \<lambda>c. Some 1)]\<rparr>"

section \<open>The two branches of the execution step\<close>


lemma buy_branch_skip:
  "min dv (max 0 ((cash st - fixed_per_trade costs) / (1 + bps_to_rate (fee_bps costs)))) \<le> 0
   \<Longrightarrow> buy_branch costs dt prices a dv st = st"
  unfolding buy_branch_def Let_def by auto

lemma buy_branch_exec:
  assumes m: "m = min dv (max 0 ((cash st - fixed_per_trade costs) / (1 + bps_to_rate (fee_bps costs))))"
    and pos: "0 < m"
  shows "buy_branch costs dt prices a dv st =
     st\<lparr>cash := cash st - (m + (m * bps_to_rate (fee_bps costs) + fixed_per_trade costs)),
        qty := (qty st)(a := qty st a + m / (prices a * (1 + bps_to_rate (slippage_bps costs)))),
        trade_rows := trade_rows st @
          [\<lparr>t_date = dt, t_asset = a, t_side = BUY,
            t_qty = m / (prices a * (1 + bps_to_rate (slippage_bps costs))),
            t_price = prices a * (1 + bps_to_rate (slippage_bps costs)), t_notional = m,
            t_fee_var = m * bps_to_rate (fee_bps costs), t_fee_fixed = fixed_per_trade costs,
            t_fee_total = m * bps_to_rate (fee_bps costs) + fixed_per_trade costs\<rparr>]\<rparr>"
proof -
  have "0 < dv" using pos unfolding m by (simp only: min_less_iff_conj)
  then have "\<not> dv \<le> 0" by simp
  moreover have "\<not> min dv (max 0 ((cash st - fixed_per_trade costs) / (1 + bps_to_rate (fee_bps costs)))) \<le> 0"
    using pos unfolding m by (simp only: not_le)
  ultimately show ?thesis unfolding buy_branch_def Let_def m by (simp only: if_False)
qed

lemma rate_nonneg: "0 \<le> b \<Longrightarrow> 0 \<le> bps_to_rate b"
  by (simp add: bps_to_rate_def)


section \<open>Invariants of the periodic run\<close>

lemma sell_branch_exec:
  assumes dv: "dv \<noteq> 0"
    and ep: "ep = prices a * (1 - bps_to_rate (slippage_bps costs))"
    and dq: "dq = (if ep = 0 then qty st a else min (\<bar>dv\<bar> / ep) (qty st a))"
  shows "sell_branch costs dt prices a dv st =
     st\<lparr>cash := cash st + (dq * ep - (dq * ep * bps_to_rate (fee_bps costs) + fixed_per_trade costs)),
        qty := (qty st)(a := qty st a - dq),
        trade_rows := trade_rows st @
          [\<lparr>t_date = dt, t_asset = a, t_side = SELL, t_qty = dq, t_price = ep,
            t_notional = dq * ep, t_fee_var = dq * ep * bps_to_rate (fee_bps costs),
            t_fee_fixed = fixed_per_trade costs,
            t_fee_total = dq * ep * bps_to_rate (fee_bps costs) + fixed_per_trade costs\<rparr>]\<rparr>"
proof -
  have "\<not> \<bar>dv\<bar> \<le> 0" using dv by simp
  then show ?thesis unfolding sell_branch_def Let_def dq ep by (simp only: if_False)
qed

lemma trade_body_cases:
  "(fst sa = SELL \<and> delta (snd sa) < 0 \<and>
      trade_body costs dt prices delta st sa = sell_branch costs dt prices (snd sa) (delta (snd sa)) st) \<or>
   (fst sa = BUY \<and> 0 < delta (snd sa) \<and>
      trade_body costs dt prices delta st sa = buy_branch costs dt prices (snd sa) (delta (snd sa)) st) \<or>
   trade_body costs dt prices delta st sa = st"
  by (simp add: trade_body_def Let_def)

lemma buy_branch_cases:
  obtains (skip) "buy_branch costs dt prices a dv st = st"
  | (exec) m where "0 < m" "m \<le> dv"
      "m \<le> max 0 ((cash st - fixed_per_trade costs) / (1 + bps_to_rate (fee_bps costs)))"
      "buy_branch costs dt prices a dv st =
         st\<lparr>cash := cash st - (m + (m * bps_to_rate (fee_bps costs) + fixed_per_trade costs)),
            qty := (qty st)(a := qty st a + m / (prices a * (1 + bps_to_rate (slippage_bps costs)))),
            trade_rows := trade_rows st @
              [\<lparr>t_date = dt, t_asset = a, t_side = BUY,
                t_qty = m / (prices a * (1 + bps_to_rate (slippage_bps costs))),
                t_price = prices a * (1 + bps_to_rate (slippage_bps costs)), t_notional = m,
                t_fee_var = m * bps_to_rate (fee_bps costs), t_fee_fixed = fixed_per_trade costs,
                t_fee_total = m * bps_to_rate (fee_bps costs) + fixed_per_trade costs\<rparr>]\<rparr>"
proof (cases "min dv (max 0 ((cash st - fixed_per_trade costs) / (1 + bps_to_rate (fee_bps costs)))) \<le> 0")
  case True
  then show ?thesis using skip buy_branch_skip by blast
next
  case False
  then have pos: "0 < min dv (max 0 ((cash st - fixed_per_trade costs) / (1 + bps_to_rate (fee_bps costs))))"
    by (simp only: not_le)
  show ?thesis
    by (rule exec [OF pos _ _ buy_branch_exec [OF refl pos]]) simp_all
qed

lemma foldl_trade_body_inv:
  assumes step: "\<And>s sa. sa \<in> set ws \<Longrightarrow> I s \<Longrightarrow> I (trade_body costs dt prices delta s sa)"
    and init: "I st"
  shows "I (foldl (trade_body costs dt prices delta) st ws)"
  using assms by (induction ws arbitrary: st) simp_all

lemma set_work: "set (work assets) = {SELL, BUY} \<times> set assets"
  by (auto simp: work_def)

lemma day_step_inv:
  assumes step: "\<And>s sa delta. snd sa \<in> set assets \<Longrightarrow> I s \<Longrightarrow>
      I (trade_body costs (fst row) (snd row) delta s sa)"
    and eq: "\<And>s e. I (s\<lparr>equity_rows := e\<rparr>) = I s"
    and init: "I st"
  shows "I (day_step costs assets rdays st row)"
proof -
  have "I (rebalance costs assets (fst row) (snd row) st)"
    unfolding rebalance_def
    by (rule foldl_trade_body_inv [where I = I and st = st]) (auto simp: set_work init intro: step)
  then show ?thesis using init by (simp add: day_step_def Let_def eq)
qed

lemma foldl_day_step_inv:
  assumes step: "\<And>s sa delta row. row \<in> set rs \<Longrightarrow> snd sa \<in> set assets \<Longrightarrow> I s \<Longrightarrow>
      I (trade_body costs (fst row) (snd row) delta s sa)"
    and eq: "\<And>s e. I (s\<lparr>equity_rows := e\<rparr>) = I s"
    and init: "I st"
  shows "I (foldl (day_step costs assets rdays) st rs)"
  using step init
proof (induction rs arbitrary: st)
  case Nil
  then show ?case by simp
next
  case (Cons row rs)
  have "I (day_step costs assets rdays st row)"
    by (rule day_step_inv [where I = I and st = st]) (auto simp: eq Cons.prems(2) intro: Cons.prems(1))
  then show ?case using Cons.IH Cons.prems(1) by simp
qed

lemma mid_state_inv:
  assumes step: "\<And>s sa delta row. row \<in> set (rows close) \<Longrightarrow> snd sa \<in> set (columns close) \<Longrightarrow>
      I s \<Longrightarrow> I (trade_body costs (fst row) (snd row) delta s sa)"
    and eq: "\<And>s e. I (s\<lparr>equity_rows := e\<rparr>) = I s"
    and init: "I (init_state initial_cash)"
    and j: "j < length (rows close)"
  shows "I (mid_state close initial_cash costs j k)"
proof -
  let ?st = "run_rows close initial_cash costs (take j (rows close))"
  have st: "I ?st"
    unfolding run_rows_def
  proof (rule foldl_day_step_inv [where I = I])
    show "I (init_state initial_cash)" by (rule init)
  next
    fix s e show "I (s\<lparr>equity_rows := e\<rparr>) = I s" by (rule eq)
  next
    fix s delta row and sa :: "side \<times> asset" 
    assume "row \<in> set (take j (rows close))" "snd sa \<in> set (columns close)" "I s"
    then show "I (trade_body costs (fst row) (snd row) delta s sa)"
      using step in_set_takeD by metis
  qed
  have row: "rows close ! j \<in> set (rows close)" using j by simp
  show ?thesis
    unfolding mid_state_def Let_def
  proof (rule foldl_trade_body_inv [where I = I])
    show "I ?st" by (rule st)
  next
    fix s and sa :: "side \<times> asset"
    assume "sa \<in> set (take k (work (columns close)))" "I s"
    then have "snd sa \<in> set (columns close)"
      using in_set_takeD [of sa k "work (columns close)"] by (auto simp: set_work)
    then show "I (trade_body costs (fst (rows close ! j)) (snd (rows close ! j)) 
             (delta_val (columns close) (snd (rows close ! j)) ?st) s sa)"
      using step [OF row] \<open>I s\<close> by blast
  qed
qed

lemma run_rows_inv:
  assumes step: "\<And>s sa delta row. row \<in> set (rows close) \<Longrightarrow> snd sa \<in> set (columns close) \<Longrightarrow>
      I s \<Longrightarrow> I (trade_body costs (fst row) (snd row) delta s sa)"
    and eq: "\<And>s e. I (s\<lparr>equity_rows := e\<rparr>) = I s"
    and init: "I (init_state initial_cash)"
  shows "I (run_rows close initial_cash costs (rows close))"
  unfolding run_rows_def
  by (rule foldl_day_step_inv [where I = I]) (auto simp: eq init intro: step)

lemma positive_panelD:
  "positive_panel close \<Longrightarrow> row \<in> set (rows close) \<Longrightarrow> a \<in> set (columns close) \<Longrightarrow> 0 < snd row a"
  by (simp add: positive_panel_def list_all_iff)

lemma sell_dq_le:
  "(if ep = 0 then q else min (n / ep) q) \<le> (q::real)"
  by simp



lemma trade_body_qty_nonneg:
  assumes p: "0 < prices (snd sa)" and sl: "0 \<le> slippage_bps costs" and q: "\<forall>a. 0 \<le> qty s a"
  shows "\<forall>a. 0 \<le> qty (trade_body costs dt prices delta s sa) a"
  using trade_body_cases [of sa delta costs dt prices s]
proof (elim disjE conjE)
  assume dv: "delta (snd sa) < 0"
    and eq: "trade_body costs dt prices delta s sa = sell_branch costs dt prices (snd sa) (delta (snd sa)) s"
  have "delta (snd sa) \<noteq> 0" using dv by simp
  note ex = sell_branch_exec [OF this refl refl, where costs = costs and dt = dt and prices = prices and st = s]
  show ?thesis unfolding eq ex using q sell_dq_le by simp
next
  assume dv: "0 < delta (snd sa)"
    and eq: "trade_body costs dt prices delta s sa = buy_branch costs dt prices (snd sa) (delta (snd sa)) s"
  show ?thesis unfolding eq
  proof (cases rule: buy_branch_cases [of costs dt prices "snd sa" "delta (snd sa)" s])
    case skip
    then show "\<forall>a. 0 \<le> qty (buy_branch costs dt prices (snd sa) (delta (snd sa)) s) a"
      using q by simp
  next
    case (exec m)
    have "0 \<le> bps_to_rate (slippage_bps costs)" by (rule rate_nonneg [OF sl])
    then have "0 < prices (snd sa) * (1 + bps_to_rate (slippage_bps costs))" using p by simp
    then have "0 \<le> m / (prices (snd sa) * (1 + bps_to_rate (slippage_bps costs)))"
      using exec(1) by simp
    then show "\<forall>a. 0 \<le> qty (buy_branch costs dt prices (snd sa) (delta (snd sa)) s) a"
      unfolding exec(4) using q by simp
  qed
next
  assume "trade_body costs dt prices delta s sa = s"
  then show ?thesis using q by simp
qed

lemma mid_state_qty_nonneg:
  assumes "positive_panel close" "0 \<le> slippage_bps costs" "j < length (rows close)"
  shows "\<forall>a. 0 \<le> qty (mid_state close initial_cash costs j k) a"
proof (rule mid_state_inv [where I = "\<lambda>s. \<forall>a. 0 \<le> qty s a"])
  fix s :: sim_state and delta row and sa :: "side \<times> asset"
  assume r: "row \<in> set (rows close)" and a: "snd sa \<in> set (columns close)"
    and q: "\<forall>a. 0 \<le> qty s a"
  have "0 < snd row (snd sa)" by (rule positive_panelD [OF assms(1) r a])
  then show "\<forall>a. 0 \<le> qty (trade_body costs (fst row) (snd row) delta s sa) a"
    using assms(2) q by (rule trade_body_qty_nonneg)
qed (simp_all add: init_state_def assms(3))

lemma run_rows_qty_nonneg:
  assumes "positive_panel close" "0 \<le> slippage_bps costs"
  shows "\<forall>a. 0 \<le> qty (run_rows close initial_cash costs (rows close)) a"
proof (rule run_rows_inv [where I = "\<lambda>s. \<forall>a. 0 \<le> qty s a"])
  fix s :: sim_state and delta row and sa :: "side \<times> asset"
  assume r: "row \<in> set (rows close)" and a: "snd sa \<in> set (columns close)"
    and q: "\<forall>a. 0 \<le> qty s a"
  have "0 < snd row (snd sa)" by (rule positive_panelD [OF assms(1) r a])
  then show "\<forall>a. 0 \<le> qty (trade_body costs (fst row) (snd row) delta s sa) a"
    using assms(2) q by (rule trade_body_qty_nonneg)
qed (simp_all add: init_state_def)

text \<open>
  Claim C9. In every run of the periodic simulator on a panel of strictly positive
  prices with non-negative slippage and fee, the quantity held of every asset is greater than or
  equal to zero in every state of the run: after any number of rows and any number of
  iterations of the trade loop on the next row (hence after every trade), and at the end
  of the run. The SELL branch subtracts the quantity clamped to the holding, the BUY
  branch adds a positive quantity.
\<close>

theorem holdings_never_negative:
  assumes "positive_panel close" and "0 \<le> slippage_bps costs" and "0 \<le> fee_bps costs"
  shows "(j < length (rows close) \<longrightarrow> 0 \<le> qty (mid_state close initial_cash costs j k) a) \<and>
         0 \<le> qty (run_rows close initial_cash costs (rows close)) a"
  using mid_state_qty_nonneg [OF assms(1,2)] run_rows_qty_nonneg [OF assms(1,2)] by blast

theorem holdings_never_negative_witness:
  "positive_panel panel3 \<and> 0 \<le> slippage_bps costs_fixed10 \<and> 0 \<le> fee_bps costs_fixed10 \<and>
   (2::nat) < length (rows panel3) \<and>
   0 \<le> qty (mid_state panel3 20 costs_fixed10 2 1) ''A'' \<and>
   0 \<le> qty (run_rows panel3 20 costs_fixed10 (rows panel3)) ''A''"
  using holdings_never_negative [of panel3 costs_fixed10 2 20 1 "''A''"]
  by (simp add: positive_panel_def panel3_def px_def costs_fixed10_def)

section \<open>A run in which selling costs more than it yields\<close>

lemma run_rows_Nil: "run_rows close initial_cash costs [] = init_state initial_cash"
  by (simp add: run_rows_def)

lemma run_rows_snoc:
  "run_rows close initial_cash costs (rs @ [r]) =
     day_step costs (columns close) (first_trading_day_each_month (map fst (rows close)))
       (run_rows close initial_cash costs rs) r"
  by (simp add: run_rows_def)

lemma day_step_proj:
  "cash (day_step costs assets rdays st row)
     = cash (if fst row \<in> set rdays then rebalance costs assets (fst row) (snd row) st else st)"
  "qty (day_step costs assets rdays st row)
     = qty (if fst row \<in> set rdays then rebalance costs assets (fst row) (snd row) st else st)"
  "trade_rows (day_step costs assets rdays st row)
     = trade_rows (if fst row \<in> set rdays then rebalance costs assets (fst row) (snd row) st else st)"
  by (simp_all add: day_step_def Let_def)

lemma rebalance_days_panel3:
  "first_trading_day_each_month (map fst (rows panel3)) = [(2020, 1, 2), (2020, 2, 3), (2020, 3, 2)]"
  by (simp add: first_trading_day_each_month_def panel3_def year_month_def)

lemma columns_panel3: "columns panel3 = [''A'', ''B'']"
  by (simp add: panel3_def)

lemma delta_val_two:
  "delta_val [''A'', ''B''] prices st ''A''
     = (cash st + (qty st ''A'' * prices ''A'' + qty st ''B'' * prices ''B'')) / 2 - qty st ''A'' * prices ''A''"
  "delta_val [''A'', ''B''] prices st ''B''
     = (cash st + (qty st ''A'' * prices ''A'' + qty st ''B'' * prices ''B'')) / 2 - qty st ''B'' * prices ''B''"
  by (simp_all add: delta_val_def portfolio_value_def Let_def)

lemma rebalance_two:
  "rebalance costs [''A'', ''B''] dt prices st =
     trade_body costs dt prices (delta_val [''A'', ''B''] prices st)
       (trade_body costs dt prices (delta_val [''A'', ''B''] prices st)
         (trade_body costs dt prices (delta_val [''A'', ''B''] prices st)
           (trade_body costs dt prices (delta_val [''A'', ''B''] prices st) st (SELL, ''A''))
           (SELL, ''B''))
         (BUY, ''A''))
       (BUY, ''B'')"
  by (simp add: rebalance_def work_def)

lemma run_rows_one:
  "run_rows close initial_cash costs [r] =
     day_step costs (columns close) (first_trading_day_each_month (map fst (rows close)))
       (init_state initial_cash) r"
  using run_rows_snoc [of close initial_cash costs "[]" r] by (simp add: run_rows_Nil)

lemma run_rows_two:
  "run_rows close initial_cash costs [r1, r2] =
     day_step costs (columns close) (first_trading_day_each_month (map fst (rows close)))
       (run_rows close initial_cash costs [r1]) r2"
  using run_rows_snoc [of close initial_cash costs "[r1]" r2] by simp

lemma run_rows_three:
  "run_rows close initial_cash costs [r1, r2, r3] =
     day_step costs (columns close) (first_trading_day_each_month (map fst (rows close)))
       (run_rows close initial_cash costs [r1, r2]) r3"
  using run_rows_snoc [of close initial_cash costs "[r1, r2]" r3] by simp

lemmas eval_day = day_step_def rebalance_days_panel3 columns_panel3 rebalance_two trade_body_def
  delta_val_two portfolio_value_def buy_branch_def sell_branch_def bps_to_rate_def Let_def

lemma panel3_day1:
  "run_rows panel3 20 costs_fixed10 [((2020, 1, 2), px 1 1)] =
     \<lparr>cash = 0, qty = (\<lambda>a. 0)(''A'' := 10),
      equity_rows = [\<lparr>e_date = (2020, 1, 2), e_equity = 10, e_cash = 0,
            e_qty = [(''A'', 10), (''B'', 0)], e_val = [(''A'', 10), (''B'', 0)]\<rparr>],
      trade_rows = [\<lparr>t_date = (2020, 1, 2), t_asset = ''A'', t_side = BUY, t_qty = 10, t_price = 1, t_notional = 10,
            t_fee_var = 0, t_fee_fixed = 10, t_fee_total = 10\<rparr>]\<rparr>"
  unfolding run_rows_one
  by (simp add: eval_day init_state_def costs_fixed10_def px_def)

lemma panel3_day2:
  "run_rows panel3 20 costs_fixed10 [((2020, 1, 2), px 1 1), ((2020, 2, 3), px (1 / 2) 1)] =
     \<lparr>cash = - 15 / 2, qty = (\<lambda>a. 0)(''A'' := 5),
      equity_rows = [\<lparr>e_date = (2020, 1, 2), e_equity = 10, e_cash = 0,
            e_qty = [(''A'', 10), (''B'', 0)], e_val = [(''A'', 10), (''B'', 0)]\<rparr>,
          \<lparr>e_date = (2020, 2, 3), e_equity = - 5, e_cash = - 15 / 2,
            e_qty = [(''A'', 5), (''B'', 0)], e_val = [(''A'', 5 / 2), (''B'', 0)]\<rparr>],
      trade_rows = [\<lparr>t_date = (2020, 1, 2), t_asset = ''A'', t_side = BUY, t_qty = 10, t_price = 1, t_notional = 10,
            t_fee_var = 0, t_fee_fixed = 10, t_fee_total = 10\<rparr>,
          \<lparr>t_date = (2020, 2, 3), t_asset = ''A'', t_side = SELL, t_qty = 5, t_price = 1 / 2, t_notional = 5 / 2,
            t_fee_var = 0, t_fee_fixed = 10, t_fee_total = 10\<rparr>]\<rparr>"
  unfolding run_rows_two panel3_day1
  by (simp add: eval_day costs_fixed10_def px_def)

lemma panel3_day3:
  "run_rows panel3 20 costs_fixed10 [((2020, 1, 2), px 1 1), ((2020, 2, 3), px (1 / 2) 1), ((2020, 3, 2), px (1 / 2) 1)] =
     \<lparr>cash = - 25, qty = (\<lambda>a. 0)(''A'' := 0, ''B'' := 0),
      equity_rows = [\<lparr>e_date = (2020, 1, 2), e_equity = 10, e_cash = 0,
            e_qty = [(''A'', 10), (''B'', 0)], e_val = [(''A'', 10), (''B'', 0)]\<rparr>,
          \<lparr>e_date = (2020, 2, 3), e_equity = - 5, e_cash = - 15 / 2,
            e_qty = [(''A'', 5), (''B'', 0)], e_val = [(''A'', 5 / 2), (''B'', 0)]\<rparr>,
          \<lparr>e_date = (2020, 3, 2), e_equity = - 25, e_cash = - 25,
            e_qty = [(''A'', 0), (''B'', 0)], e_val = [(''A'', 0), (''B'', 0)]\<rparr>],
      trade_rows = [\<lparr>t_date = (2020, 1, 2), t_asset = ''A'', t_side = BUY, t_qty = 10, t_price = 1, t_notional = 10,
            t_fee_var = 0, t_fee_fixed = 10, t_fee_total = 10\<rparr>,
          \<lparr>t_date = (2020, 2, 3), t_asset = ''A'', t_side = SELL, t_qty = 5, t_price = 1 / 2, t_notional = 5 / 2,
            t_fee_var = 0, t_fee_fixed = 10, t_fee_total = 10\<rparr>,
          \<lparr>t_date = (2020, 3, 2), t_asset = ''A'', t_side = SELL, t_qty = 5, t_price = 1 / 2, t_notional = 5 / 2,
            t_fee_var = 0, t_fee_fixed = 10, t_fee_total = 10\<rparr>,
          \<lparr>t_date = (2020, 3, 2), t_asset = ''B'', t_side = SELL, t_qty = 0, t_price = 1, t_notional = 0,
            t_fee_var = 0, t_fee_fixed = 10, t_fee_total = 10\<rparr>]\<rparr>"
  unfolding run_rows_three panel3_day2
  by (simp add: eval_day costs_fixed10_def px_def)

lemma rows_panel3:
  "rows panel3 = [((2020, 1, 2), px 1 1), ((2020, 2, 3), px (1 / 2) 1), ((2020, 3, 2), px (1 / 2) 1)]"
  by (simp add: panel3_def)



text \<open>
  Claim C3 against the code. On the same run, at the third rebalance the portfolio value
  is negative, so the delta of asset B, of which nothing is held, is negative: the SELL
  branch clamps the quantity to the holding 0 and still records the trade and charges
  the fixed fee. The ledger ends with a SELL of B of quantity 0, notional 0, fee 10. The
  only test of the SELL branch is on the notional before clamping; the BUY branch tests
  the clamped notional.
\<close>

theorem zero_quantity_sell_is_recorded:
  "map (\<lambda>t. (t_date t, t_asset t, t_side t, t_qty t, t_notional t, t_fee_total t))
     (snd (simulate_equal_weight_monthly_rebalance panel3 20 costs_fixed10))
   = [((2020, 1, 2), ''A'', BUY, 10, 10, 10), ((2020, 2, 3), ''A'', SELL, 5, 5 / 2, 10),
      ((2020, 3, 2), ''A'', SELL, 5, 5 / 2, 10), ((2020, 3, 2), ''B'', SELL, 0, 0, 10)]"
  unfolding simulate_equal_weight_monthly_rebalance_def rows_panel3 panel3_day3 by simp

section \<open>Cash after a trade\<close>





section \<open>Executed notional and delta\<close>






section \<open>Order of the ledger\<close>

lemma trade_body_ledger:
  "\<exists>ts. trade_rows (trade_body costs dt prices delta s sa) = trade_rows s @ ts \<and>
        (\<forall>t\<in>set ts. t_date t = dt \<and> t_side t = fst sa)"
  using trade_body_cases [of sa delta costs dt prices s]
proof (elim disjE conjE)
  assume sd: "fst sa = SELL" and dv: "delta (snd sa) < 0"
    and eq: "trade_body costs dt prices delta s sa = sell_branch costs dt prices (snd sa) (delta (snd sa)) s"
  have "delta (snd sa) \<noteq> 0" using dv by simp
  note ex = sell_branch_exec [OF this refl refl, where costs = costs and dt = dt and prices = prices and st = s]
  show ?thesis unfolding eq ex using sd by simp
next
  assume sd: "fst sa = BUY"
    and eq: "trade_body costs dt prices delta s sa = buy_branch costs dt prices (snd sa) (delta (snd sa)) s"
  show ?thesis unfolding eq
  proof (cases rule: buy_branch_cases [of costs dt prices "snd sa" "delta (snd sa)" s])
    case skip
    then show "\<exists>ts. trade_rows (buy_branch costs dt prices (snd sa) (delta (snd sa)) s) = trade_rows s @ ts \<and>
        (\<forall>t\<in>set ts. t_date t = dt \<and> t_side t = fst sa)" by simp
  next
    case (exec m)
    show "\<exists>ts. trade_rows (buy_branch costs dt prices (snd sa) (delta (snd sa)) s) = trade_rows s @ ts \<and>
        (\<forall>t\<in>set ts. t_date t = dt \<and> t_side t = fst sa)"
      unfolding exec(4) using sd by simp
  qed
next
  assume "trade_body costs dt prices delta s sa = s"
  then show ?thesis by simp
qed

lemma foldl_trade_body_ledger:
  assumes "\<forall>sa\<in>set ws. fst sa = sd"
  shows "\<exists>ts. trade_rows (foldl (trade_body costs dt prices delta) s ws) = trade_rows s @ ts \<and>
        (\<forall>t\<in>set ts. t_date t = dt \<and> t_side t = sd)"
  using assms
proof (induction ws arbitrary: s)
  case Nil
  then show ?case by simp
next
  case (Cons sa ws)
  obtain ts1 where 1: "trade_rows (trade_body costs dt prices delta s sa) = trade_rows s @ ts1"
      "\<forall>t\<in>set ts1. t_date t = dt \<and> t_side t = fst sa"
    using trade_body_ledger by blast
  obtain ts2 where 2: "trade_rows (foldl (trade_body costs dt prices delta) (trade_body costs dt prices delta s sa) ws)
        = trade_rows (trade_body costs dt prices delta s sa) @ ts2"
      "\<forall>t\<in>set ts2. t_date t = dt \<and> t_side t = sd"
    using Cons.IH Cons.prems by (metis list.set_intros(2))
  have "fst sa = sd" using Cons.prems by simp
  then have "\<forall>t\<in>set (ts1 @ ts2). t_date t = dt \<and> t_side t = sd" using 1(2) 2(2) by auto
  moreover have "trade_rows (foldl (trade_body costs dt prices delta) s (sa # ws)) = trade_rows s @ (ts1 @ ts2)"
    using 1(1) 2(1) by simp
  ultimately show ?case by blast
qed

lemma work_split: "work assets = map (Pair SELL) assets @ map (Pair BUY) assets"
  by (simp add: work_def)

lemma rebalance_ledger:
  "\<exists>ss bs. trade_rows (rebalance costs assets dt prices st) = trade_rows st @ ss @ bs \<and>
      (\<forall>t\<in>set ss. t_date t = dt \<and> t_side t = SELL) \<and>
      (\<forall>t\<in>set bs. t_date t = dt \<and> t_side t = BUY)"
proof -
  let ?f = "trade_body costs dt prices (delta_val assets prices st)"
  let ?s1 = "foldl ?f st (map (Pair SELL) assets)"
  obtain ss where 1: "trade_rows ?s1 = trade_rows st @ ss" "\<forall>t\<in>set ss. t_date t = dt \<and> t_side t = SELL"
    using foldl_trade_body_ledger [of "map (Pair SELL) assets" SELL costs dt prices "delta_val assets prices st" st]
    by auto
  obtain bs where 2: "trade_rows (foldl ?f ?s1 (map (Pair BUY) assets)) = trade_rows ?s1 @ bs"
      "\<forall>t\<in>set bs. t_date t = dt \<and> t_side t = BUY"
    using foldl_trade_body_ledger [of "map (Pair BUY) assets" BUY costs dt prices "delta_val assets prices st" ?s1]
    by auto
  have "trade_rows (rebalance costs assets dt prices st) = trade_rows st @ ss @ bs"
    using 1(1) 2(1) by (simp add: rebalance_def work_split)
  then show ?thesis using 1(2) 2(2) by blast
qed

lemma day_step_ledger:
  "\<exists>ss bs. trade_rows (day_step costs assets rdays st row) = trade_rows st @ ss @ bs \<and>
      (\<forall>t\<in>set ss. t_date t = fst row \<and> t_side t = SELL) \<and>
      (\<forall>t\<in>set bs. t_date t = fst row \<and> t_side t = BUY)"
proof (cases "fst row \<in> set rdays")
  case True
  then have "trade_rows (day_step costs assets rdays st row)
      = trade_rows (rebalance costs assets (fst row) (snd row) st)"
    by (simp add: day_step_def Let_def)
  then show ?thesis using rebalance_ledger [of costs assets "fst row" "snd row" st] by simp
next
  case False
  then have "trade_rows (day_step costs assets rdays st row) = trade_rows st @ [] @ []"
    by (simp add: day_step_def Let_def)
  then show ?thesis by (metis empty_iff list.set(1))
qed

lemma sells_then_buys_ordered:
  assumes "\<forall>t\<in>set ss. t_date t = dt \<and> t_side t = SELL" "\<forall>t\<in>set bs. t_date t = dt \<and> t_side t = BUY"
  shows "ledger_ordered (ss @ bs)"
  unfolding ledger_ordered_def sorted_wrt_append
  using assms by (auto simp: sorted_wrt_iff_nth_less)

lemma foldl_day_step_ordered:
  assumes "sorted_wrt (<) (map fst rs)"
    and "ledger_ordered (trade_rows st)"
    and "\<forall>t\<in>set (trade_rows st). \<forall>r\<in>set rs. t_date t < fst r"
  shows "ledger_ordered (trade_rows (foldl (day_step costs assets rdays) st rs))"
  using assms
proof (induction rs arbitrary: st)
  case Nil
  then show ?case by simp
next
  case (Cons row rs)
  obtain ss bs where d: "trade_rows (day_step costs assets rdays st row) = trade_rows st @ ss @ bs"
      "\<forall>t\<in>set ss. t_date t = fst row \<and> t_side t = SELL"
      "\<forall>t\<in>set bs. t_date t = fst row \<and> t_side t = BUY"
    using day_step_ledger by blast
  have new: "ledger_ordered (ss @ bs)" by (rule sells_then_buys_ordered [OF d(2,3)])
  have newd: "\<forall>t\<in>set (ss @ bs). t_date t = fst row" using d(2,3) by auto
  have old: "\<forall>t\<in>set (trade_rows st). t_date t < fst row" using Cons.prems(3) by simp
  have 1: "ledger_ordered (trade_rows (day_step costs assets rdays st row))"
    unfolding d(1) using Cons.prems(2) new newd old
    unfolding ledger_ordered_def by (subst sorted_wrt_append) auto
  have later: "\<forall>r\<in>set rs. fst row < fst r" using Cons.prems(1) by simp
  have 2: "\<forall>t\<in>set (trade_rows (day_step costs assets rdays st row)). \<forall>r\<in>set rs. t_date t < fst r"
    unfolding d(1) using Cons.prems(3) newd later by auto
  have 3: "sorted_wrt (<) (map fst rs)" using Cons.prems(1) by simp
  show ?case using Cons.IH [OF 3 1 2] by simp
qed

text \<open>
  Claim C6. A rebalance appends to the ledger first its SELL trades and then its BUY
  trades, all of them dated on the day of the rebalance. Hence, on a panel whose dates
  are strictly increasing, the ledger of the whole run is ordered by ascending date and,
  within a date, all sells come before all buys.
\<close>

theorem sells_before_buys_in_ledger:
  "(\<exists>ss bs. trade_rows (rebalance costs assets dt prices st) = trade_rows st @ ss @ bs \<and>
      (\<forall>t\<in>set ss. t_date t = dt \<and> t_side t = SELL) \<and>
      (\<forall>t\<in>set bs. t_date t = dt \<and> t_side t = BUY)) \<and>
   (sorted_wrt (<) (map fst (rows close)) \<longrightarrow>
      ledger_ordered (snd (simulate_equal_weight_monthly_rebalance close initial_cash costs)))"
proof (intro conjI impI)
  show "\<exists>ss bs. trade_rows (rebalance costs assets dt prices st) = trade_rows st @ ss @ bs \<and>
      (\<forall>t\<in>set ss. t_date t = dt \<and> t_side t = SELL) \<and>
      (\<forall>t\<in>set bs. t_date t = dt \<and> t_side t = BUY)"
    by (rule rebalance_ledger)
next
  assume "sorted_wrt (<) (map fst (rows close))"
  then have "ledger_ordered (trade_rows (run_rows close initial_cash costs (rows close)))"
    unfolding run_rows_def
    by (rule foldl_day_step_ordered) (simp_all add: init_state_def ledger_ordered_def)
  then show "ledger_ordered (snd (simulate_equal_weight_monthly_rebalance close initial_cash costs))"
    by (simp add: simulate_equal_weight_monthly_rebalance_def Let_def)
qed

text \<open>
  The run of \<^term>\<open>panel3\<close> from 1000 in cash without costs buys both assets on the first
  date and, after asset A has halved, sells B and buys A on the second date: the SELL of B comes
  before the BUY of A although A is the first column.
\<close>

lemma free_day1:
  "run_rows panel3 1000 costs_free [((2020, 1, 2), px 1 1)] =
     \<lparr>cash = 0, qty = (\<lambda>a. 0)(''A'' := 500, ''B'' := 500),
      equity_rows = [\<lparr>e_date = (2020, 1, 2), e_equity = 1000, e_cash = 0,
            e_qty = [(''A'', 500), (''B'', 500)], e_val = [(''A'', 500), (''B'', 500)]\<rparr>],
      trade_rows = [\<lparr>t_date = (2020, 1, 2), t_asset = ''A'', t_side = BUY, t_qty = 500, t_price = 1, t_notional = 500,
            t_fee_var = 0, t_fee_fixed = 0, t_fee_total = 0\<rparr>,
          \<lparr>t_date = (2020, 1, 2), t_asset = ''B'', t_side = BUY, t_qty = 500, t_price = 1, t_notional = 500,
            t_fee_var = 0, t_fee_fixed = 0, t_fee_total = 0\<rparr>]\<rparr>"
  unfolding run_rows_one
  by (simp add: eval_day init_state_def costs_free_def px_def)

lemma free_day2:
  "run_rows panel3 1000 costs_free [((2020, 1, 2), px 1 1), ((2020, 2, 3), px (1 / 2) 1)] =
     \<lparr>cash = 0, qty = (\<lambda>a. 0)(''B'' := 375, ''A'' := 750),
      equity_rows = [\<lparr>e_date = (2020, 1, 2), e_equity = 1000, e_cash = 0,
            e_qty = [(''A'', 500), (''B'', 500)], e_val = [(''A'', 500), (''B'', 500)]\<rparr>,
          \<lparr>e_date = (2020, 2, 3), e_equity = 750, e_cash = 0,
            e_qty = [(''A'', 750), (''B'', 375)], e_val = [(''A'', 375), (''B'', 375)]\<rparr>],
      trade_rows = [\<lparr>t_date = (2020, 1, 2), t_asset = ''A'', t_side = BUY, t_qty = 500, t_price = 1, t_notional = 500,
            t_fee_var = 0, t_fee_fixed = 0, t_fee_total = 0\<rparr>,
          \<lparr>t_date = (2020, 1, 2), t_asset = ''B'', t_side = BUY, t_qty = 500, t_price = 1, t_notional = 500,
            t_fee_var = 0, t_fee_fixed = 0, t_fee_total = 0\<rparr>,
          \<lparr>t_date = (2020, 2, 3), t_asset = ''B'', t_side = SELL, t_qty = 125, t_price = 1, t_notional = 125,
            t_fee_var = 0, t_fee_fixed = 0, t_fee_total = 0\<rparr>,
          \<lparr>t_date = (2020, 2, 3), t_asset = ''A'', t_side = BUY, t_qty = 250, t_price = 1 / 2, t_notional = 125,
            t_fee_var = 0, t_fee_fixed = 0, t_fee_total = 0\<rparr>]\<rparr>"
  unfolding run_rows_two free_day1
  by (simp add: eval_day costs_free_def px_def)

lemma free_day3:
  "run_rows panel3 1000 costs_free [((2020, 1, 2), px 1 1), ((2020, 2, 3), px (1 / 2) 1), ((2020, 3, 2), px (1 / 2) 1)] =
     \<lparr>cash = 0, qty = (\<lambda>a. 0)(''B'' := 375, ''A'' := 750),
      equity_rows = [\<lparr>e_date = (2020, 1, 2), e_equity = 1000, e_cash = 0,
            e_qty = [(''A'', 500), (''B'', 500)], e_val = [(''A'', 500), (''B'', 500)]\<rparr>,
          \<lparr>e_date = (2020, 2, 3), e_equity = 750, e_cash = 0,
            e_qty = [(''A'', 750), (''B'', 375)], e_val = [(''A'', 375), (''B'', 375)]\<rparr>,
          \<lparr>e_date = (2020, 3, 2), e_equity = 750, e_cash = 0,
            e_qty = [(''A'', 750), (''B'', 375)], e_val = [(''A'', 375), (''B'', 375)]\<rparr>],
      trade_rows = [\<lparr>t_date = (2020, 1, 2), t_asset = ''A'', t_side = BUY, t_qty = 500, t_price = 1, t_notional = 500,
            t_fee_var = 0, t_fee_fixed = 0, t_fee_total = 0\<rparr>,
          \<lparr>t_date = (2020, 1, 2), t_asset = ''B'', t_side = BUY, t_qty = 500, t_price = 1, t_notional = 500,
            t_fee_var = 0, t_fee_fixed = 0, t_fee_total = 0\<rparr>,
          \<lparr>t_date = (2020, 2, 3), t_asset = ''B'', t_side = SELL, t_qty = 125, t_price = 1, t_notional = 125,
            t_fee_var = 0, t_fee_fixed = 0, t_fee_total = 0\<rparr>,
          \<lparr>t_date = (2020, 2, 3), t_asset = ''A'', t_side = BUY, t_qty = 250, t_price = 1 / 2, t_notional = 125,
            t_fee_var = 0, t_fee_fixed = 0, t_fee_total = 0\<rparr>]\<rparr>"
  unfolding run_rows_three free_day2
  by (simp add: eval_day costs_free_def px_def)

lemma free_rebalance2:
  "trade_rows (rebalance costs_free [''A'', ''B''] (2020, 2, 3) (px (1 / 2) 1)
       (run_rows panel3 1000 costs_free [((2020, 1, 2), px 1 1)]))
   = trade_rows (run_rows panel3 1000 costs_free [((2020, 1, 2), px 1 1)]) @
       [\<lparr>t_date = (2020, 2, 3), t_asset = ''B'', t_side = SELL, t_qty = 125, t_price = 1, t_notional = 125,
            t_fee_var = 0, t_fee_fixed = 0, t_fee_total = 0\<rparr>,
        \<lparr>t_date = (2020, 2, 3), t_asset = ''A'', t_side = BUY, t_qty = 250, t_price = 1 / 2, t_notional = 125,
            t_fee_var = 0, t_fee_fixed = 0, t_fee_total = 0\<rparr>]"
  unfolding free_day1
  by (simp add: rebalance_two trade_body_def delta_val_two buy_branch_def sell_branch_def bps_to_rate_def
        Let_def costs_free_def px_def)

theorem sells_before_buys_in_ledger_witness:
  "sorted_wrt (<) (map fst (rows panel3)) \<and>
   map (\<lambda>t. (t_date t, t_side t, t_asset t))
     (snd (simulate_equal_weight_monthly_rebalance panel3 1000 costs_free))
     = [((2020, 1, 2), BUY, ''A''), ((2020, 1, 2), BUY, ''B''),
        ((2020, 2, 3), SELL, ''B''), ((2020, 2, 3), BUY, ''A'')] \<and>
   ledger_ordered (snd (simulate_equal_weight_monthly_rebalance panel3 1000 costs_free)) \<and>
   (\<exists>ss bs. trade_rows (rebalance costs_free [''A'', ''B''] (2020, 2, 3) (px (1 / 2) 1)
                  (run_rows panel3 1000 costs_free [((2020, 1, 2), px 1 1)]))
        = trade_rows (run_rows panel3 1000 costs_free [((2020, 1, 2), px 1 1)]) @ ss @ bs \<and>
      (\<forall>t\<in>set ss. t_date t = (2020, 2, 3) \<and> t_side t = SELL) \<and>
      (\<forall>t\<in>set bs. t_date t = (2020, 2, 3) \<and> t_side t = BUY) \<and>
      map (\<lambda>t. (t_side t, t_asset t)) (ss @ bs) = [(SELL, ''B''), (BUY, ''A'')])"
proof -
  note inst = sells_before_buys_in_ledger [of costs_free "[''A'', ''B'']" "(2020, 2, 3)" "px (1 / 2) 1"
      "run_rows panel3 1000 costs_free [((2020, 1, 2), px 1 1)]" panel3 1000]
  have srt: "sorted_wrt (<) (map fst (rows panel3))" by (simp add: rows_panel3)
  have ord: "ledger_ordered (snd (simulate_equal_weight_monthly_rebalance panel3 1000 costs_free))"
    using inst srt by blast
  obtain ss bs where sb: "trade_rows (rebalance costs_free [''A'', ''B''] (2020, 2, 3) (px (1 / 2) 1)
                  (run_rows panel3 1000 costs_free [((2020, 1, 2), px 1 1)]))
        = trade_rows (run_rows panel3 1000 costs_free [((2020, 1, 2), px 1 1)]) @ ss @ bs"
      "\<forall>t\<in>set ss. t_date t = (2020, 2, 3) \<and> t_side t = SELL"
      "\<forall>t\<in>set bs. t_date t = (2020, 2, 3) \<and> t_side t = BUY"
    using inst by blast
  have "ss @ bs = [\<lparr>t_date = (2020, 2, 3), t_asset = ''B'', t_side = SELL, t_qty = 125, t_price = 1, t_notional = 125,
            t_fee_var = 0, t_fee_fixed = 0, t_fee_total = 0\<rparr>,
        \<lparr>t_date = (2020, 2, 3), t_asset = ''A'', t_side = BUY, t_qty = 250, t_price = 1 / 2, t_notional = 125,
            t_fee_var = 0, t_fee_fixed = 0, t_fee_total = 0\<rparr>]"
    using sb(1) unfolding free_rebalance2 by simp
  then have sides: "map (\<lambda>t. (t_side t, t_asset t)) (ss @ bs) = [(SELL, ''B''), (BUY, ''A'')]"
    by simp
  have led: "map (\<lambda>t. (t_date t, t_side t, t_asset t))
     (snd (simulate_equal_weight_monthly_rebalance panel3 1000 costs_free))
     = [((2020, 1, 2), BUY, ''A''), ((2020, 1, 2), BUY, ''B''),
        ((2020, 2, 3), SELL, ''B''), ((2020, 2, 3), BUY, ''A'')]"
    unfolding simulate_equal_weight_monthly_rebalance_def rows_panel3 free_day3 by simp
  have ex: "\<exists>ss bs. trade_rows (rebalance costs_free [''A'', ''B''] (2020, 2, 3) (px (1 / 2) 1)
                  (run_rows panel3 1000 costs_free [((2020, 1, 2), px 1 1)]))
        = trade_rows (run_rows panel3 1000 costs_free [((2020, 1, 2), px 1 1)]) @ ss @ bs \<and>
      (\<forall>t\<in>set ss. t_date t = (2020, 2, 3) \<and> t_side t = SELL) \<and>
      (\<forall>t\<in>set bs. t_date t = (2020, 2, 3) \<and> t_side t = BUY) \<and>
      map (\<lambda>t. (t_side t, t_asset t)) (ss @ bs) = [(SELL, ''B''), (BUY, ''A'')]"
  proof (rule exI [of _ ss], rule exI [of _ bs], intro conjI)
    show "trade_rows (rebalance costs_free [''A'', ''B''] (2020, 2, 3) (px (1 / 2) 1)
                  (run_rows panel3 1000 costs_free [((2020, 1, 2), px 1 1)]))
        = trade_rows (run_rows panel3 1000 costs_free [((2020, 1, 2), px 1 1)]) @ ss @ bs"
      by (rule sb(1))
    show "\<forall>t\<in>set ss. t_date t = (2020, 2, 3) \<and> t_side t = SELL" by (rule sb(2))
    show "\<forall>t\<in>set bs. t_date t = (2020, 2, 3) \<and> t_side t = BUY" by (rule sb(3))
    show "map (\<lambda>t. (t_side t, t_asset t)) (ss @ bs) = [(SELL, ''B''), (BUY, ''A'')]"
      by (rule sides)
  qed
  from srt led ord ex show ?thesis by (intro conjI)
qed

section \<open>Order of the assets within a rebalance\<close>













section \<open>Loader and configuration\<close>

lemma load_panel_close_Inr:
  assumes "\<not> list_ex (\<lambda>r. list_ex (\<lambda>c. snd r c = None) (raw_columns t)) (raw_rows t)"
  shows "load_panel_close t =
     Inr \<lparr>columns = raw_columns t,
          rows = map (\<lambda>r. (fst r, \<lambda>c. cell_value (snd r c))) (sort_key fst (raw_rows t))\<rparr>"
proof -
  have "list_ex P (sort_key fst (raw_rows t)) = list_ex P (raw_rows t)" for P
    by (simp add: list_ex_iff)
  then show ?thesis using assms by (simp add: load_panel_close_def Let_def)
qed

text \<open>
  Counterexample to claim C4 as stated. A table with two rows of the same date, without
  NaN: the loader returns both rows, so the date occurs twice in the panel and the
  dates are not strictly increasing.
\<close>

theorem loader_keeps_duplicate_dates:
  "(case load_panel_close table_dup of
      Inl e \<Rightarrow> None
    | Inr close \<Rightarrow> Some (map fst (rows close), sorted_wrt (<) (map fst (rows close))))
   = Some ([(2020, 1, 2), (2020, 1, 2)], False)"
  by (simp add: load_panel_close_def table_dup_def Let_def)

lemma trade_body_equity_rows:
  "equity_rows (trade_body costs dt prices delta s sa) = equity_rows s"
  using trade_body_cases [of sa delta costs dt prices s]
proof (elim disjE conjE)
  assume dv: "delta (snd sa) < 0"
    and eq: "trade_body costs dt prices delta s sa = sell_branch costs dt prices (snd sa) (delta (snd sa)) s"
  have "delta (snd sa) \<noteq> 0" using dv by simp
  note ex = sell_branch_exec [OF this refl refl, where costs = costs and dt = dt and prices = prices and st = s]
  show ?thesis unfolding eq ex by simp
next
  assume eq: "trade_body costs dt prices delta s sa = buy_branch costs dt prices (snd sa) (delta (snd sa)) s"
  show ?thesis unfolding eq
    by (cases rule: buy_branch_cases [of costs dt prices "snd sa" "delta (snd sa)" s]) simp_all
qed simp

lemma rebalance_equity_rows:
  "equity_rows (rebalance costs assets dt prices st) = equity_rows st"
  unfolding rebalance_def
  by (rule foldl_trade_body_inv [where I = "\<lambda>s. equity_rows s = equity_rows st"])
     (simp_all add: trade_body_equity_rows)

lemma foldl_day_step_equity_length:
  "length (equity_rows (foldl (day_step costs assets rdays) st rs)) = length (equity_rows st) + length rs"
proof (induction rs arbitrary: st)
  case Nil
  then show ?case by simp
next
  case (Cons r rs)
  have "length (equity_rows (day_step costs assets rdays st r)) = Suc (length (equity_rows st))"
    by (simp add: day_step_def Let_def rebalance_equity_rows)
  then show ?case using Cons.IH by simp
qed

text \<open>
  Claim C8 as amended. The run validates nothing but the cells of the table: for every
  table without NaN and for every initial cash, fee, slippage and fixed charge, of any
  sign (a fee of exactly -10000 bps apart, where the divisor \<open>1 + fee_rate\<close> is zero),
  \<^verbatim>\<open>main\<close> reaches the simulation and produces a ledger and an equity curve with one
  row per row of the table.
\<close>

theorem configuration_is_not_validated:
  assumes "\<not> list_ex (\<lambda>r. list_ex (\<lambda>c. snd r c = None) (raw_columns table)) (raw_rows table)"
    and "fee \<noteq> - 10000"
  shows "\<exists>equity trades. main_baseline table initial fee slippage fixed = Inr (equity, trades) \<and>
           length equity = length (raw_rows table)"
proof -
  let ?close = "\<lparr>columns = raw_columns table,
          rows = map (\<lambda>r. (fst r, \<lambda>c. cell_value (snd r c))) (sort_key fst (raw_rows table))\<rparr>"
  let ?costs = "\<lparr>fee_bps = fee, slippage_bps = slippage, fixed_per_trade = fixed\<rparr>"
  have "main_baseline table initial fee slippage fixed
      = Inr (simulate_equal_weight_monthly_rebalance ?close initial ?costs)"
    by (simp add: main_baseline_def load_panel_close_Inr [OF assms(1)])
  moreover have "length (fst (simulate_equal_weight_monthly_rebalance ?close initial ?costs))
      = length (raw_rows table)"
    by (simp add: simulate_equal_weight_monthly_rebalance_def Let_def run_rows_def
          foldl_day_step_equity_length init_state_def)
  ultimately show ?thesis
    by (intro exI [of _ "fst (simulate_equal_weight_monthly_rebalance ?close initial ?costs)"]
          exI [of _ "snd (simulate_equal_weight_monthly_rebalance ?close initial ?costs)"]) simp
qed

theorem configuration_is_not_validated_witness:
  "\<not> list_ex (\<lambda>r. list_ex (\<lambda>c. snd r c = None) (raw_columns table_one)) (raw_rows table_one) \<and>
   (- 5 :: real) \<noteq> - 10000 \<and>
   (\<exists>equity trades. main_baseline table_one (- 100) (- 5) (- 2) (- 1) = Inr (equity, trades) \<and>
           length equity = length (raw_rows table_one))"
proof -
  have pre: "\<not> list_ex (\<lambda>r. list_ex (\<lambda>c. snd r c = None) (raw_columns table_one)) (raw_rows table_one)"
    by (simp add: table_one_def)
  show ?thesis
    using configuration_is_not_validated [OF pre, of "- 5" "- 100" "- 2" "- 1"] pre by simp
qed

text \<open>
  Counterexample to claim C8 as stated. With a fee of -5 bps the run on a one-row table
  buys both assets and is credited a fee of 0.25 on each order; with an initial cash of
  -100 the run also returns, with an equity row of cash -100. No configuration error is
  raised in either case.
\<close>

theorem negative_parameters_are_accepted:
  "(case main_baseline table_one 1000 (- 5) 0 0 of
      Inl e \<Rightarrow> None
    | Inr r \<Rightarrow> Some (map (\<lambda>t. (t_asset t, t_side t, t_notional t, t_fee_var t)) (snd r),
                      map e_cash (fst r)))
     = Some ([(''A'', BUY, 500, - 1 / 4), (''B'', BUY, 500, - 1 / 4)], [1 / 2]) \<and>
   (case main_baseline table_one (- 100) 0 0 0 of
      Inl e \<Rightarrow> None
    | Inr r \<Rightarrow> Some (map e_cash (fst r)))
     = Some [- 100]"
proof -
  have load: "load_panel_close table_one
      = Inr \<lparr>columns = [''A'', ''B''], rows = [((2020, 1, 2), \<lambda>c. 1)]\<rparr>"
    by (simp add: load_panel_close_def table_one_def cell_value_def Let_def)
  have 1: "run_rows \<lparr>columns = [''A'', ''B''], rows = [((2020, 1, 2), \<lambda>c. 1)]\<rparr> 1000
             \<lparr>fee_bps = - 5, slippage_bps = 0, fixed_per_trade = 0\<rparr> [((2020, 1, 2), \<lambda>c. 1)]
      = \<lparr>cash = 1 / 2, qty = (\<lambda>a. 0)(''A'' := 500, ''B'' := 500),
         equity_rows = [\<lparr>e_date = (2020, 1, 2), e_equity = 2001 / 2, e_cash = 1 / 2,
            e_qty = [(''A'', 500), (''B'', 500)], e_val = [(''A'', 500), (''B'', 500)]\<rparr>],
         trade_rows = [\<lparr>t_date = (2020, 1, 2), t_asset = ''A'', t_side = BUY, t_qty = 500, t_price = 1,
            t_notional = 500, t_fee_var = - 1 / 4, t_fee_fixed = 0, t_fee_total = - 1 / 4\<rparr>,
           \<lparr>t_date = (2020, 1, 2), t_asset = ''B'', t_side = BUY, t_qty = 500, t_price = 1,
            t_notional = 500, t_fee_var = - 1 / 4, t_fee_fixed = 0, t_fee_total = - 1 / 4\<rparr>]\<rparr>"
    unfolding run_rows_one
    by (simp add: first_trading_day_each_month_def year_month_def day_step_def rebalance_two trade_body_def delta_val_two portfolio_value_def
          buy_branch_def sell_branch_def bps_to_rate_def Let_def init_state_def)
  have 2: "map e_cash (equity_rows (run_rows \<lparr>columns = [''A'', ''B''], rows = [((2020, 1, 2), \<lambda>c. 1)]\<rparr> (- 100)
             \<lparr>fee_bps = 0, slippage_bps = 0, fixed_per_trade = 0\<rparr> [((2020, 1, 2), \<lambda>c. 1)]))
      = [- 100]"
    unfolding run_rows_one
    by (simp add: first_trading_day_each_month_def year_month_def day_step_def rebalance_two trade_body_def delta_val_two portfolio_value_def
          buy_branch_def sell_branch_def bps_to_rate_def Let_def init_state_def)
  show ?thesis
    by (simp add: main_baseline_def load simulate_equal_weight_monthly_rebalance_def Let_def 1 2
          del: One_nat_def)
qed

section \<open>The entry loop of buy and hold\<close>













text \<open>
  Claim C4 as amended. On a table without NaN the loader returns a panel with the
  columns of the table and all of its rows, each with its date and the numbers of its
  cells, sorted by date: the dates of the panel are in non-decreasing order, and the
  rows of the panel are the rows of the table with their multiplicities. Nothing is
  de-duplicated, so the dates of the panel are strictly increasing exactly when the
  dates of the table are unique.
\<close>

theorem loader_sorts_and_keeps_every_row:
  assumes "\<not> list_ex (\<lambda>r. list_ex (\<lambda>c. snd r c = None) (raw_columns t)) (raw_rows t)"
  shows "\<exists>close. load_panel_close t = Inr close \<and>
     columns close = raw_columns t \<and>
     sorted (map fst (rows close)) \<and>
     mset (rows close) = image_mset (\<lambda>r. (fst r, \<lambda>c. cell_value (snd r c))) (mset (raw_rows t)) \<and>
     (\<forall>r\<in>set (raw_rows t). \<forall>c\<in>set (raw_columns t). snd r c = Some (cell_value (snd r c))) \<and>
     (sorted_wrt (<) (map fst (rows close)) \<longleftrightarrow> distinct (map fst (raw_rows t)))"
proof -
  let ?close = "\<lparr>columns = raw_columns t,
          rows = map (\<lambda>r. (fst r, \<lambda>c. cell_value (snd r c))) (sort_key fst (raw_rows t))\<rparr>"
  have d: "map fst (rows ?close) = map fst (sort_key fst (raw_rows t))"
    by (simp add: comp_def)
  have s: "sorted (map fst (rows ?close))" unfolding d by (rule sorted_sort_key)
  have m: "mset (map fst (rows ?close)) = mset (map fst (raw_rows t))"
    unfolding d by simp
  have mr: "mset (rows ?close)
      = image_mset (\<lambda>r. (fst r, \<lambda>c. cell_value (snd r c))) (mset (raw_rows t))"
    by simp
  have cells: "\<forall>r\<in>set (raw_rows t). \<forall>c\<in>set (raw_columns t). snd r c = Some (cell_value (snd r c))"
  proof (intro ballI)
    fix r c
    assume "r \<in> set (raw_rows t)" "c \<in> set (raw_columns t)"
    then have "snd r c \<noteq> None" using assms by (auto simp: list_ex_iff)
    then show "snd r c = Some (cell_value (snd r c))"
      by (cases "snd r c") (simp_all add: cell_value_def)
  qed
  have "distinct (map fst (rows ?close)) \<longleftrightarrow> distinct (map fst (raw_rows t))"
    using m by (rule mset_eq_imp_distinct_iff)
  then have st: "sorted_wrt (<) (map fst (rows ?close)) \<longleftrightarrow> distinct (map fst (raw_rows t))"
    using s by (simp add: strict_sorted_iff)
  show ?thesis
  proof (intro exI [of _ ?close] conjI)
    show "load_panel_close t = Inr ?close" by (rule load_panel_close_Inr [OF assms])
    show "columns ?close = raw_columns t" by simp
    show "sorted (map fst (rows ?close))" by (rule s)
    show "mset (rows ?close)
      = image_mset (\<lambda>r. (fst r, \<lambda>c. cell_value (snd r c))) (mset (raw_rows t))" by (rule mr)
    show "\<forall>r\<in>set (raw_rows t). \<forall>c\<in>set (raw_columns t). snd r c = Some (cell_value (snd r c))"
      by (rule cells)
    show "sorted_wrt (<) (map fst (rows ?close)) \<longleftrightarrow> distinct (map fst (raw_rows t))" by (rule st)
  qed
qed

theorem loader_sorts_and_keeps_every_row_witness:
  "\<not> list_ex (\<lambda>r. list_ex (\<lambda>c. snd r c = None) (raw_columns table_unsorted)) (raw_rows table_unsorted) \<and>
   (\<exists>close. load_panel_close table_unsorted = Inr close \<and> columns close = [''A'', ''B''] \<and>
      map (\<lambda>r. (fst r, snd r ''A'', snd r ''B'')) (rows close)
        = [((2020, 1, 2), 1, 1), ((2020, 2, 3), 2, 2)] \<and>
      mset (rows close) = image_mset (\<lambda>r. (fst r, \<lambda>c. cell_value (snd r c)))
                            (mset (raw_rows table_unsorted)) \<and>
      sorted_wrt (<) (map fst (rows close)))"
proof -
  have pre: "\<not> list_ex (\<lambda>r. list_ex (\<lambda>c. snd r c = None) (raw_columns table_unsorted))
      (raw_rows table_unsorted)"
    by (simp add: table_unsorted_def)
  obtain close where c: "load_panel_close table_unsorted = Inr close"
      "columns close = raw_columns table_unsorted"
      "mset (rows close) = image_mset (\<lambda>r. (fst r, \<lambda>c. cell_value (snd r c)))
                            (mset (raw_rows table_unsorted))"
      "sorted_wrt (<) (map fst (rows close)) \<longleftrightarrow> distinct (map fst (raw_rows table_unsorted))"
    using loader_sorts_and_keeps_every_row [OF pre] by blast
  have "load_panel_close table_unsorted
      = Inr \<lparr>columns = [''A'', ''B''], rows = [((2020, 1, 2), \<lambda>c. 1), ((2020, 2, 3), \<lambda>c. 2)]\<rparr>"
    by (simp add: load_panel_close_def table_unsorted_def cell_value_def Let_def)
  then have close: "close = \<lparr>columns = [''A'', ''B''], rows = [((2020, 1, 2), \<lambda>c. 1), ((2020, 2, 3), \<lambda>c. 2)]\<rparr>"
    using c(1) by simp
  have rows: "map (\<lambda>r. (fst r, snd r ''A'', snd r ''B'')) (rows close)
        = [((2020, 1, 2), 1, 1), ((2020, 2, 3), 2, 2)]"
    unfolding close by simp
  have "distinct (map fst (raw_rows table_unsorted))" by (simp add: table_unsorted_def)
  then have srt: "sorted_wrt (<) (map fst (rows close))" using c(4) by simp
  have cols: "columns close = [''A'', ''B'']" using c(2) by (simp add: table_unsorted_def)
  show ?thesis
  proof (intro conjI exI [of _ close])
    show "\<not> list_ex (\<lambda>r. list_ex (\<lambda>c. snd r c = None) (raw_columns table_unsorted))
      (raw_rows table_unsorted)" by (rule pre)
  qed (rule c(1) cols rows c(3) srt)+
qed

end
